theory Spec2Isabelle
  imports Complex_Main
begin

section \<open>Double-precision values\<close>

text \<open>
  The notebook computes on NumPy \<open>float64\<close> arrays. A value is a finite number, one of the
  two infinities or not-a-number. The special values follow IEEE 754, which is what NumPy
  array arithmetic (and Numba's array expressions) do: no operation raises, a division by
  zero gives an infinity or not-a-number. The one thing not kept is the sign of a zero:
  \<open>+0.0\<close> and \<open>-0.0\<close> are both \<open>Fin 0\<close>; they compare equal, and the functions below never
  divide by a negative zero, since every divisor is a product of norms.
\<close>

datatype float64 = Fin real | PInf | NInf | NaN

text \<open>
  Every operation on finite values returns the exact result rounded to binary64, to the
  nearest representable number with ties to the even significand. A number in the binade
  \<open>[2^e, 2^(e+1))\<close> is rounded to a multiple of \<open>2^(e-52)\<close> (53 significant bits); below
  \<open>2^(-1022)\<close> the spacing stays \<open>2^(-1074)\<close> (gradual underflow, down to zero); a result
  that rounds to \<open>2^1024\<close> or beyond overflows to an infinity.
\<close>

definition round_half_even :: "real \<Rightarrow> int" where
  "round_half_even t =
     (let f = \<lfloor>t\<rfloor> in
      if t - of_int f < 1 / 2 then f
      else if 1 / 2 < t - of_int f then f + 1
      else if even f then f else f + 1)"

definition exponent64 :: "real \<Rightarrow> int" where
  "exponent64 x = max \<lfloor>log 2 \<bar>x\<bar>\<rfloor> (- 1022)"

definition ulp64 :: "real \<Rightarrow> real" where
  "ulp64 x = 2 powr of_int (exponent64 x - 52)"

definition round_real :: "real \<Rightarrow> real" where
  "round_real x = of_int (round_half_even (x / ulp64 x)) * ulp64 x"

definition round64 :: "real \<Rightarrow> float64" where
  "round64 x =
     (if x = 0 then Fin 0
      else if 2 ^ 1024 \<le> \<bar>x\<bar> \<or> 2 ^ 1024 \<le> \<bar>round_real x\<bar>
        then (if 0 < x then PInf else NInf)
      else Fin (round_real x))"

fun fadd :: "float64 \<Rightarrow> float64 \<Rightarrow> float64" where
  "fadd NaN y = NaN"
| "fadd x NaN = NaN"
| "fadd (Fin a) (Fin b) = round64 (a + b)"
| "fadd (Fin a) PInf = PInf"
| "fadd (Fin a) NInf = NInf"
| "fadd PInf (Fin b) = PInf"
| "fadd NInf (Fin b) = NInf"
| "fadd PInf PInf = PInf"
| "fadd NInf NInf = NInf"
| "fadd PInf NInf = NaN"
| "fadd NInf PInf = NaN"

fun fmul :: "float64 \<Rightarrow> float64 \<Rightarrow> float64" where
  "fmul NaN y = NaN"
| "fmul x NaN = NaN"
| "fmul (Fin a) (Fin b) = round64 (a * b)"
| "fmul (Fin a) PInf = (if a = 0 then NaN else if 0 < a then PInf else NInf)"
| "fmul (Fin a) NInf = (if a = 0 then NaN else if 0 < a then NInf else PInf)"
| "fmul PInf (Fin b) = (if b = 0 then NaN else if 0 < b then PInf else NInf)"
| "fmul NInf (Fin b) = (if b = 0 then NaN else if 0 < b then NInf else PInf)"
| "fmul PInf PInf = PInf"
| "fmul NInf NInf = PInf"
| "fmul PInf NInf = NInf"
| "fmul NInf PInf = NInf"

fun fdiv :: "float64 \<Rightarrow> float64 \<Rightarrow> float64" where
  "fdiv NaN y = NaN"
| "fdiv x NaN = NaN"
| "fdiv (Fin a) (Fin b) =
     (if b = 0 then (if a = 0 then NaN else if 0 < a then PInf else NInf)
      else round64 (a / b))"
| "fdiv (Fin a) PInf = Fin 0"
| "fdiv (Fin a) NInf = Fin 0"
| "fdiv PInf (Fin b) = (if 0 \<le> b then PInf else NInf)"
| "fdiv NInf (Fin b) = (if 0 \<le> b then NInf else PInf)"
| "fdiv PInf PInf = NaN"
| "fdiv NInf NInf = NaN"
| "fdiv PInf NInf = NaN"
| "fdiv NInf PInf = NaN"

fun fsqrt :: "float64 \<Rightarrow> float64" where
  "fsqrt NaN = NaN"
| "fsqrt PInf = PInf"
| "fsqrt NInf = NaN"
| "fsqrt (Fin a) = (if a < 0 then NaN else round64 (sqrt a))"

text \<open>
  Two values agree within an absolute tolerance, as \<open>np.isclose\<close> with \<open>rtol = 0\<close> decides
  it: not-a-number is close to nothing, an infinity only to itself.
\<close>

fun within_tolerance :: "real \<Rightarrow> float64 \<Rightarrow> float64 \<Rightarrow> bool" where
  "within_tolerance tol (Fin a) (Fin b) = (\<bar>a - b\<bar> \<le> tol)"
| "within_tolerance tol PInf PInf = True"
| "within_tolerance tol NInf NInf = True"
| "within_tolerance tol x y = False"

section \<open>Arrays\<close>

text \<open>
  A 2-D array carries its shape and its rows. The shape is kept beside the rows because
  an array with no rows still has a column count (a window of shape \<open>(0, C)\<close>).
  A 1-D array is a list.
\<close>

record 'a array2d =
  nrows :: nat
  ncols :: nat
  rows :: "'a list list"

text \<open>\<open>arr[:, j]\<close>: column \<open>j\<close> as a 1-D array.\<close>

definition column :: "'a array2d \<Rightarrow> nat \<Rightarrow> 'a list" where
  "column arr j = map (\<lambda>i. rows arr ! i ! j) [0..<nrows arr]"

text \<open>\<open>arr.T\<close> of a 2-D array.\<close>

definition transpose2d :: "'a array2d \<Rightarrow> 'a array2d" where
  "transpose2d arr =
     \<lparr>nrows = ncols arr, ncols = nrows arr,
      rows = map (\<lambda>i. map (\<lambda>j. rows arr ! j ! i) [0..<nrows arr]) [0..<ncols arr]\<rparr>"

text \<open>
  \<open>np.sum\<close> of a 1-D array, accumulated from left to right; the sum of no elements is
  \<open>0.0\<close>.
\<close>

definition np_sum :: "float64 list \<Rightarrow> float64" where
  "np_sum v = foldl fadd (Fin 0) v"

text \<open>\<open>np.square\<close>, element by element.\<close>

definition np_square :: "float64 list \<Rightarrow> float64 list" where
  "np_square v = map (\<lambda>x. fmul x x) v"

text \<open>
  \<open>a @ b\<close> for 2-D arrays whose inner dimensions agree (in both single-window functions
  they are \<open>arr.T\<close> and \<open>arr\<close>): entry \<open>(i, j)\<close> sums the rounded products along the
  inner axis, from left to right.
\<close>

definition matmul :: "float64 array2d \<Rightarrow> float64 array2d \<Rightarrow> float64 array2d" where
  "matmul a b =
     \<lparr>nrows = nrows a, ncols = ncols b,
      rows = map (\<lambda>i. map (\<lambda>j. np_sum (map (\<lambda>k. fmul (rows a ! i ! k) (rows b ! k ! j))
                                            [0..<ncols a]))
                        [0..<ncols b])
                 [0..<nrows a]\<rparr>"

text \<open>
  \<open>np.linalg.norm(arr, axis=0)\<close>: NumPy returns \<open>sqrt(add.reduce(x * x, axis=0))\<close>,
  a 1-D array with one norm per column.
\<close>

definition linalg_norm_axis0 :: "float64 array2d \<Rightarrow> float64 list" where
  "linalg_norm_axis0 arr =
     map (\<lambda>j. fsqrt (np_sum (map (\<lambda>x. fmul x x) (column arr j)))) [0..<ncols arr]"

text \<open>\<open>np.expand_dims(v, axis=0)\<close> of a 1-D array: one row.\<close>

definition expand_dims0 :: "'a list \<Rightarrow> 'a array2d" where
  "expand_dims0 v = \<lparr>nrows = 1, ncols = length v, rows = [v]\<rparr>"

text \<open>\<open>np.tile(a, (p, q))\<close> of a 2-D array: \<open>p\<close> copies down, \<open>q\<close> copies across.\<close>

definition tile :: "'a array2d \<Rightarrow> nat \<times> nat \<Rightarrow> 'a array2d" where
  "tile a reps =
     (case reps of (p, q) \<Rightarrow>
        \<lparr>nrows = p * nrows a, ncols = q * ncols a,
         rows = map (\<lambda>i. map (\<lambda>j. rows a ! (i mod nrows a) ! (j mod ncols a))
                           [0..<q * ncols a])
                    [0..<p * nrows a]\<rparr>)"

text \<open>
  An element-wise binary operation with NumPy broadcasting on 2-D arrays: an axis of
  length 1 is stretched to the other operand's length. Both single-window functions
  apply it to shapes \<open>(C, C)\<close> and \<open>(C, C)\<close>, or \<open>(C, C)\<close> and \<open>(1, C)\<close>, which are compatible.
\<close>

definition broadcast_dim :: "nat \<Rightarrow> nat \<Rightarrow> nat" where
  "broadcast_dim m n = (if m = 1 then n else m)"

definition elementwise ::
  "('a \<Rightarrow> 'b \<Rightarrow> 'c) \<Rightarrow> 'a array2d \<Rightarrow> 'b array2d \<Rightarrow> 'c array2d" where
  "elementwise f a b =
     \<lparr>nrows = broadcast_dim (nrows a) (nrows b),
      ncols = broadcast_dim (ncols a) (ncols b),
      rows = map (\<lambda>i. map (\<lambda>j. f (rows a ! (if nrows a = 1 then 0 else i)
                                          ! (if ncols a = 1 then 0 else j))
                                  (rows b ! (if nrows b = 1 then 0 else i)
                                          ! (if ncols b = 1 then 0 else j)))
                        [0..<broadcast_dim (ncols a) (ncols b)])
                 [0..<broadcast_dim (nrows a) (nrows b)]\<rparr>"

section \<open>The single-window functions\<close>

text \<open>\<open>calc_cosine_similarity_on_2darray\<close>, the NumPy formulation.\<close>

definition calc_cosine_similarity_on_2darray :: "float64 array2d \<Rightarrow> float64 array2d" where
  "calc_cosine_similarity_on_2darray arr =
     (let arr_x_arr = matmul (transpose2d arr) arr;
          arr_norm = linalg_norm_axis0 arr;
          arr_norm_r = expand_dims0 arr_norm;
          arr_norm_r_m = tile arr_norm_r (ncols arr_norm_r, 1);
          arr_norm_c_m = transpose2d arr_norm_r_m;
          arr_norm_mul = elementwise fmul arr_norm_r_m arr_norm_c_m
      in elementwise fdiv arr_x_arr arr_norm_mul)"

text \<open>\<open>calc_norm\<close>: \<open>np.sqrt(np.sum(np.square(v)))\<close>.\<close>

definition calc_norm :: "float64 list \<Rightarrow> float64" where
  "calc_norm v = fsqrt (np_sum (np_square v))"

definition zeros :: "nat \<Rightarrow> nat \<Rightarrow> float64 array2d" where
  "zeros r c = \<lparr>nrows = r, ncols = c, rows = replicate r (replicate c (Fin 0))\<rparr>"

definition ones :: "nat \<Rightarrow> nat \<Rightarrow> float64 array2d" where
  "ones r c = \<lparr>nrows = r, ncols = c, rows = replicate r (replicate c (Fin 1))\<rparr>"

text \<open>\<open>a[i, j] = v\<close>, with \<open>i\<close> and \<open>j\<close> inside the shape (the loop below stays inside).\<close>

definition setitem :: "'a array2d \<Rightarrow> nat \<Rightarrow> nat \<Rightarrow> 'a \<Rightarrow> 'a array2d" where
  "setitem a i j v = a\<lparr>rows := (rows a)[i := (rows a ! i)[j := v]]\<rparr>"

text \<open>
  \<open>calc_cosine_similarity_on_2darray_numba\<close>: the norm row is filled by the loop over the
  columns, and replicated by multiplying a matrix of ones.
\<close>

definition norm_loop :: "float64 array2d \<Rightarrow> nat list \<Rightarrow> float64 array2d \<Rightarrow> float64 array2d" where
  "norm_loop arr idxs arr_norm_r =
     fold (\<lambda>i r. setitem r 0 i (calc_norm (column arr i))) idxs arr_norm_r"

definition calc_cosine_similarity_on_2darray_numba :: "float64 array2d \<Rightarrow> float64 array2d" where
  "calc_cosine_similarity_on_2darray_numba arr =
     (let arr_x_arr = matmul (transpose2d arr) arr;
          arr_norm_r = norm_loop arr [0..<ncols arr] (zeros 1 (ncols arr));
          arr_norm_r_m = elementwise fmul (ones (ncols arr) (ncols arr)) arr_norm_r;
          arr_norm_c_m = transpose2d arr_norm_r_m;
          arr_norm_mul = elementwise fmul arr_norm_r_m arr_norm_c_m
      in elementwise fdiv arr_x_arr arr_norm_mul)"

text \<open>The dot product of two 1-D arrays and the Euclidean norm of one, as the claims name them.\<close>

definition dot :: "float64 list \<Rightarrow> float64 list \<Rightarrow> float64" where
  "dot u v = np_sum (map (\<lambda>(x, y). fmul x y) (zip u v))"

definition euclidean_norm :: "float64 list \<Rightarrow> float64" where
  "euclidean_norm v = fsqrt (dot v v)"

section \<open>Windowing\<close>

text \<open>
  What the notebook's calls can raise. \<open>ValueError\<close>, \<open>IndexError\<close> and \<open>TypeError\<close> are
  Python's own, \<open>NameError\<close> is the read of a module-level name that no cell has bound yet,
  and \<open>TypingError\<close> is Numba's refusal to compile a jitted function for the argument
  types of a call.
\<close>

datatype error = ValueError | IndexError | TypeError | NameError | TypingError

text \<open>
  An n-dimensional view: a shape and the element at each index. A view owns no data, it
  reads the array it was taken from.
\<close>

record 'a ndarray =
  shape :: "nat list"
  item :: "nat list \<Rightarrow> 'a"

text \<open>
  \<open>np.lib.stride_tricks.sliding_window_view(x, window_shape=(w, f))\<close> on a 2-D array, as
  NumPy defines it: a negative window length is rejected, then each axis is checked and
  trimmed in turn (\<open>if shape[ax] < dim: raise ValueError\<close>, \<open>shape[ax] -= dim - 1\<close>), and
  the view has shape \<open>(T - w + 1, C - f + 1, w, f)\<close> with element \<open>(i, j, a, b)\<close> read at
  \<open>x[i + a, j + b]\<close>. A window length of zero passes both checks.
\<close>

definition sliding_window_view :: "'a array2d \<Rightarrow> int \<times> int \<Rightarrow> error + 'a ndarray" where
  "sliding_window_view x window_shape =
     (case window_shape of (w, f) \<Rightarrow>
        if w < 0 \<or> f < 0 then Inl ValueError
        else if int (nrows x) < w then Inl ValueError
        else if int (ncols x) < f then Inl ValueError
        else Inr \<lparr>shape = [nat (int (nrows x) - (w - 1)), nat (int (ncols x) - (f - 1)),
                           nat w, nat f],
                  item = (\<lambda>idx. rows x ! (idx ! 0 + idx ! 2) ! (idx ! 1 + idx ! 3))\<rparr>)"

text \<open>
  \<open>np.squeeze(a)\<close> with no axis given removes every axis of length 1. An index into the
  result is mapped back by putting 0 at each removed axis.
\<close>

fun unsqueeze_index :: "nat list \<Rightarrow> nat list \<Rightarrow> nat list" where
  "unsqueeze_index [] idx = []"
| "unsqueeze_index (d # ds) idx =
     (if d = 1 then 0 # unsqueeze_index ds idx
      else (case idx of [] \<Rightarrow> [] | i # rest \<Rightarrow> i # unsqueeze_index ds rest))"

definition squeeze :: "'a ndarray \<Rightarrow> 'a ndarray" where
  "squeeze a =
     \<lparr>shape = filter (\<lambda>d. d \<noteq> 1) (shape a),
      item = (\<lambda>idx. item a (unsqueeze_index (shape a) idx))\<rparr>"

text \<open>\<open>a[k]\<close>: the sub-array at position \<open>k\<close> of the first axis.\<close>

definition subarray :: "'a ndarray \<Rightarrow> nat \<Rightarrow> 'a ndarray" where
  "subarray a k = \<lparr>shape = tl (shape a), item = (\<lambda>idx. item a (k # idx))\<rparr>"

text \<open>
  \<open>for arr in a\<close>: the sub-arrays along the first axis, in order. A 0-d array cannot be
  iterated (\<open>TypeError: iteration over a 0-d array\<close>).
\<close>

definition iterate :: "'a ndarray \<Rightarrow> error + 'a ndarray list" where
  "iterate a =
     (case shape a of
        [] \<Rightarrow> Inl TypeError
      | d # ds \<Rightarrow> Inr (map (subarray a) [0..<d]))"

text \<open>A 2-D view read as a 2-D array.\<close>

definition as2d :: "'a ndarray \<Rightarrow> 'a array2d" where
  "as2d a =
     \<lparr>nrows = shape a ! 0, ncols = shape a ! 1,
      rows = map (\<lambda>i. map (\<lambda>j. item a [i, j]) [0..<shape a ! 1]) [0..<shape a ! 0]\<rparr>"

text \<open>\<open>a.T\<close> of a view of any dimension: the axes reversed.\<close>

definition transpose_nd :: "'a ndarray \<Rightarrow> 'a ndarray" where
  "transpose_nd a = \<lparr>shape = rev (shape a), item = (\<lambda>idx. item a (rev idx))\<rparr>"

text \<open>A list comprehension whose element expression can raise: the first error ends it.\<close>

fun collect :: "(error + 'b) list \<Rightarrow> error + 'b list" where
  "collect [] = Inr []"
| "collect (x # xs) =
     (case x of
        Inl e \<Rightarrow> Inl e
      | Inr y \<Rightarrow> (case collect xs of Inl e \<Rightarrow> Inl e | Inr ys \<Rightarrow> Inr (y # ys)))"

text \<open>
  The arrays that \<open>for arr in np.squeeze(sliding_window_view(g, (window_size,
  num_features)))\<close> visits, and what it means for a function to return, rather than
  raise, on the transpose of each of them.
\<close>

definition windowed :: "'a array2d \<Rightarrow> int \<Rightarrow> int \<Rightarrow> error + 'a ndarray list" where
  "windowed g window_size num_features =
     (case sliding_window_view g (window_size, num_features) of
        Inl e \<Rightarrow> Inl e
      | Inr v \<Rightarrow> iterate (squeeze v))"

definition returns_on_windows ::
  "('a ndarray \<Rightarrow> error + 'm) \<Rightarrow> 'a array2d \<Rightarrow> int \<Rightarrow> int \<Rightarrow> bool" where
  "returns_on_windows f g window_size num_features \<longleftrightarrow>
     (\<forall>ws. windowed g window_size num_features = Inr ws \<longrightarrow>
        (\<forall>a \<in> set ws. \<exists>m. f (transpose_nd a) = Inr m))"

section \<open>The rolling functions\<close>

text \<open>
  \<open>rolling_cosine_similarity_numba\<close> is jitted. Numba types the whole function for the
  dimension of its argument before running anything: iterating a 3-D array gives the 2-D
  arrays that \<open>calc_cosine_similarity_on_2darray_numba\<close> is written for (\<open>arr.shape[1]\<close>,
  \<open>arr[:, i]\<close>); for any other dimension the call fails to compile.
\<close>

definition rolling_cosine_similarity_numba ::
  "float64 ndarray \<Rightarrow> error + float64 array2d list" where
  "rolling_cosine_similarity_numba array_windowed =
     (if length (shape array_windowed) \<noteq> 3 then Inl TypingError
      else case iterate array_windowed of
             Inl e \<Rightarrow> Inl e
           | Inr ws \<Rightarrow>
               Inr (map (\<lambda>arr. calc_cosine_similarity_on_2darray_numba (as2d arr)) ws))"

definition calc_rolling_cosine_similarity_numba ::
  "float64 array2d \<Rightarrow> int \<Rightarrow> int \<Rightarrow> error + float64 array2d list" where
  "calc_rolling_cosine_similarity_numba arr window_size num_features =
     (case sliding_window_view arr (window_size, num_features) of
        Inl e \<Rightarrow> Inl e
      | Inr v \<Rightarrow> rolling_cosine_similarity_numba (squeeze v))"

text \<open>
  \<open>calc_cosine_similarity_on_2darray\<close> called on one element of the squeezed window array.
  A 2-D element is the intended case. A 1-D element fails at \<open>arr_norm_r.shape[1]\<close>
  (the expanded norm has one axis), a scalar element has no matrix product, and for an
  element of three or more axes, none of length 1 after the squeeze, the shapes of the
  batched product or of the final division do not broadcast.
\<close>

definition calc_cosine_similarity_on_element :: "float64 ndarray \<Rightarrow> error + float64 array2d" where
  "calc_cosine_similarity_on_element arr =
     (if length (shape arr) = 2 then Inr (calc_cosine_similarity_on_2darray (as2d arr))
      else if length (shape arr) = 1 then Inl IndexError
      else if length (shape arr) = 0 then Inl TypeError
      else Inl ValueError)"

text \<open>
  \<open>calc_rolling_cosine_similarity_v1\<close> and \<open>calc_rolling_cosine_similarity_v2\<close> window the
  module-level name \<open>array_2D\<close>, which is bound only once the data cell has run; their
  parameter \<open>array\<close> is not used in the body. The global is passed first here.
  scikit-learn's \<open>cosine_similarity\<close> is not part of the notebook and is a parameter.
\<close>

definition calc_rolling_cosine_similarity_v1 ::
  "(float64 ndarray \<Rightarrow> error + 'm) \<Rightarrow> float64 array2d option \<Rightarrow> float64 array2d \<Rightarrow>
     int \<Rightarrow> int \<Rightarrow> error + 'm list" where
  "calc_rolling_cosine_similarity_v1 cosine_similarity array_2D array window_size num_features =
     (case array_2D of
        None \<Rightarrow> Inl NameError
      | Some g \<Rightarrow>
          (case sliding_window_view g (window_size, num_features) of
             Inl e \<Rightarrow> Inl e
           | Inr v \<Rightarrow>
               (case iterate (squeeze v) of
                  Inl e \<Rightarrow> Inl e
                | Inr ws \<Rightarrow> collect (map (\<lambda>arr. cosine_similarity (transpose_nd arr)) ws))))"

definition calc_rolling_cosine_similarity_v2 ::
  "float64 array2d option \<Rightarrow> float64 array2d \<Rightarrow> int \<Rightarrow> int \<Rightarrow>
     error + float64 array2d list" where
  "calc_rolling_cosine_similarity_v2 array_2D array window_size num_features =
     (case array_2D of
        None \<Rightarrow> Inl NameError
      | Some g \<Rightarrow>
          (case sliding_window_view g (window_size, num_features) of
             Inl e \<Rightarrow> Inl e
           | Inr v \<Rightarrow>
               (case iterate (squeeze v) of
                  Inl e \<Rightarrow> Inl e
                | Inr ws \<Rightarrow> collect (map calc_cosine_similarity_on_element ws))))"

text \<open>The window that starts at row \<open>s\<close>: rows \<open>s .. s + w - 1\<close>, all columns.\<close>

definition window :: "'a array2d \<Rightarrow> nat \<Rightarrow> nat \<Rightarrow> 'a array2d" where
  "window arr s w =
     \<lparr>nrows = w, ncols = ncols arr,
      rows = map (\<lambda>a. map (\<lambda>b. rows arr ! (s + a) ! b) [0..<ncols arr]) [0..<w]\<rparr>"

section \<open>Concrete inputs\<close>

text \<open>
  The six-by-two series of the specification's worked scenario and its first window of
  three rows; the two-by-two identity; a series of one row; a two-by-two series whose first
  channel is zero; and a window of one row whose first value is \<open>2^600\<close>, a double whose
  square is beyond the largest double.
\<close>

definition scenario_matrix :: "float64 array2d" where
  "scenario_matrix =
     \<lparr>nrows = 6, ncols = 2,
      rows = [[Fin 1, Fin 0], [Fin 0, Fin 1], [Fin 1, Fin 1],
              [Fin 2, Fin 2], [Fin 1, Fin (-1)], [Fin 3, Fin 0]]\<rparr>"

definition scenario_window :: "float64 array2d" where
  "scenario_window =
     \<lparr>nrows = 3, ncols = 2, rows = [[Fin 1, Fin 0], [Fin 0, Fin 1], [Fin 1, Fin 1]]\<rparr>"

definition two_by_two :: "float64 array2d" where
  "two_by_two = \<lparr>nrows = 2, ncols = 2, rows = [[Fin 1, Fin 0], [Fin 0, Fin 1]]\<rparr>"

definition single_row :: "float64 array2d" where
  "single_row = \<lparr>nrows = 1, ncols = 2, rows = [[Fin 1, Fin 2]]\<rparr>"

definition zero_channel_series :: "float64 array2d" where
  "zero_channel_series = \<lparr>nrows = 2, ncols = 2, rows = [[Fin 0, Fin 1], [Fin 0, Fin 2]]\<rparr>"


section \<open>Rounding to binary64\<close>


lemma round_half_even_int: "round_half_even (of_int m) = m"
  by (simp add: round_half_even_def)

lemma round_half_even_le:
  assumes "t \<le> of_int k"
  shows "round_half_even t \<le> k"
proof -
  have "\<lfloor>t\<rfloor> \<le> k" using assms by (simp add: floor_le_iff)
  show ?thesis
  proof (cases "\<lfloor>t\<rfloor> = k")
    case True
    then have "t = of_int k" using assms by linarith
    then show ?thesis by (simp add: round_half_even_int)
  next
    case False
    with \<open>\<lfloor>t\<rfloor> \<le> k\<close> have "\<lfloor>t\<rfloor> + 1 \<le> k" by simp
    then show ?thesis
      unfolding round_half_even_def Let_def by auto
  qed
qed

lemma round_half_even_ge:
  assumes "of_int k \<le> t"
  shows "k \<le> round_half_even t"
proof -
  have "k \<le> \<lfloor>t\<rfloor>" using assms by (simp add: le_floor_iff)
  then show ?thesis
    unfolding round_half_even_def Let_def by auto
qed

lemma ulp64_pos: "0 < ulp64 x"
  by (simp add: ulp64_def)


lemma binade:
  assumes "x \<noteq> 0"
  shows "2 powr of_int \<lfloor>log 2 \<bar>x\<bar>\<rfloor> \<le> \<bar>x\<bar>" "\<bar>x\<bar> < 2 powr of_int (\<lfloor>log 2 \<bar>x\<bar>\<rfloor> + 1)"
  using floor_log_eq_powr_iff[of "\<bar>x\<bar>" 2 "\<lfloor>log 2 \<bar>x\<bar>\<rfloor>"] assms by simp_all

lemma floor_log_le:
  assumes "y \<noteq> 0" "\<bar>y\<bar> < 2 powr of_int (e + 1)"
  shows "\<lfloor>log 2 \<bar>y\<bar>\<rfloor> \<le> e"
proof -
  have "(2::real) powr of_int \<lfloor>log 2 \<bar>y\<bar>\<rfloor> < 2 powr of_int (e + 1)"
    using binade(1)[OF assms(1)] assms(2) by linarith
  then have "\<lfloor>log 2 \<bar>y\<bar>\<rfloor> < e + 1"
    by simp
  then show ?thesis by simp
qed





text \<open>Values on the grid of their own binade are not changed by rounding.\<close>

lemma round_real_zero: "round_real 0 = 0"
  by (simp add: round_real_def round_half_even_def)

lemma round_real_grid:
  assumes "y = of_int m * 2 powr of_int k" "exponent64 y - 52 \<le> k"
  shows "round_real y = y"
proof -
  define d where "d = nat (k - (exponent64 y - 52))"
  define u where "u = ulp64 y"
  have u: "0 < u" by (simp add: u_def ulp64_pos)
  have "real_of_int k = real_of_int (exponent64 y - 52) + real d"
    using assms(2) by (simp add: d_def)
  then have "(2::real) powr of_int k = 2 powr of_int (exponent64 y - 52) * 2 powr real d"
    by (simp only: powr_add)
  then have pk: "(2::real) powr of_int k = u * 2 ^ d"
    by (simp add: u_def ulp64_def powr_realpow)
  have y: "y = of_int (m * 2 ^ d) * u"
    by (subst assms(1), subst pk) simp
  have "y / u = of_int (m * 2 ^ d)"
    using u by (subst y) simp
  then have "round_half_even (y / u) = m * 2 ^ d"
    by (simp only: round_half_even_int)
  then have "round_real y = of_int (m * 2 ^ d) * u"
    by (simp add: round_real_def u_def)
  then show ?thesis
    using y by simp
qed

lemma round_real_idem: "round_real (round_real x) = round_real x"
proof (cases "round_real x = 0")
  case True
  then show ?thesis by (simp add: round_real_zero)
next
  case nz: False
  define e where "e = exponent64 x"
  define m where "m = round_half_even (x / ulp64 x)"
  define y where "y = round_real x"
  have y: "y = of_int m * 2 powr of_int (e - 52)"
    by (simp add: y_def round_real_def m_def ulp64_def e_def)
  have x0: "x \<noteq> 0"
    using nz round_real_zero by auto
  have e: "- 1022 \<le> e" "\<lfloor>log 2 \<bar>x\<bar>\<rfloor> \<le> e"
    by (simp_all add: e_def exponent64_def)
  have "\<bar>x\<bar> < 2 powr of_int (\<lfloor>log 2 \<bar>x\<bar>\<rfloor> + 1)"
    by (rule binade(2)[OF x0])
  also have "\<dots> \<le> 2 powr of_int (e + 1)"
    using e(2) by simp
  finally have xlt: "\<bar>x\<bar> < 2 powr of_int (e + 1)" .
  have "(2::real) powr of_int (e + 1) = 2 ^ 53 * 2 powr of_int (e - 52)"
  proof -
    have "real_of_int (e + 1) = 53 + real_of_int (e - 52)" by simp
    then show ?thesis by (simp only: powr_add) simp
  qed
  then have t: "\<bar>x / ulp64 x\<bar> < 2 ^ 53"
    using xlt by (simp add: ulp64_def e_def[symmetric] field_simps)
  have t2: "x / ulp64 x \<le> real_of_int (2 ^ 53)" "real_of_int (- (2 ^ 53)) \<le> x / ulp64 x"
    using t unfolding abs_less_iff by simp_all
  have mle: "m \<le> 2 ^ 53"
    unfolding m_def by (rule round_half_even_le[OF t2(1)])
  have mge: "- (2 ^ 53) \<le> m"
    unfolding m_def by (rule round_half_even_ge[OF t2(2)])
  show ?thesis
  proof (cases "\<bar>m\<bar> = 2 ^ 53")
    case True
    then have "m = 2 ^ 53 \<or> m = - (2 ^ 53)"
      by linarith
    then have "even m"
      by auto
    then have "m = 2 * (m div 2)"
      by simp
    then have "y = of_int (m div 2) * 2 powr of_int (e + 1 - 52)"
    proof -
      assume "m = 2 * (m div 2)"
      then have "real_of_int m = 2 * real_of_int (m div 2)"
        by (metis of_int_mult of_int_numeral)
      moreover have "(2::real) powr of_int (e + 1 - 52) = 2 * 2 powr of_int (e - 52)"
      proof -
        have "real_of_int (e + 1 - 52) = 1 + real_of_int (e - 52)" by simp
        then show ?thesis by (simp only: powr_add) simp
      qed
      ultimately show ?thesis by (simp add: y)
    qed
    moreover have "exponent64 y - 52 \<le> e + 1 - 52"
    proof -
      have "\<bar>y\<bar> = 2 powr of_int (e + 1)"
      proof -
        have "\<bar>y\<bar> = 2 ^ 53 * 2 powr of_int (e - 52)"
          using True by (simp add: y abs_mult)
        then show ?thesis
          using \<open>(2::real) powr of_int (e + 1) = 2 ^ 53 * 2 powr of_int (e - 52)\<close> by simp
      qed
      then have "\<lfloor>log 2 \<bar>y\<bar>\<rfloor> = e + 1"
        by simp
      then show ?thesis
        using e(1) by (simp add: exponent64_def)
    qed
    ultimately have "round_real y = y"
      by (rule round_real_grid)
    then show ?thesis by (simp add: y_def)
  next
    case False
    then have "\<bar>m\<bar> < 2 ^ 53"
      using mle mge by linarith
    then have "\<bar>real_of_int m\<bar> < 2 ^ 53"
      by (metis of_int_abs of_int_less_iff of_int_numeral of_int_power)
    then have "\<bar>y\<bar> < 2 ^ 53 * 2 powr of_int (e - 52)"
      by (simp add: y abs_mult)
    then have "\<bar>y\<bar> < 2 powr of_int (e + 1)"
      using \<open>(2::real) powr of_int (e + 1) = 2 ^ 53 * 2 powr of_int (e - 52)\<close> by simp
    moreover have "y \<noteq> 0" using nz by (simp add: y_def)
    ultimately have "\<lfloor>log 2 \<bar>y\<bar>\<rfloor> \<le> e"
      by (intro floor_log_le)
    then have "exponent64 y - 52 \<le> e - 52"
      using e(1) by (simp add: exponent64_def)
    with y have "round_real y = y"
      by (rule round_real_grid)
    then show ?thesis by (simp add: y_def)
  qed
qed

lemma round64_idem:
  assumes "round64 x = Fin y"
  shows "round64 y = Fin y"
proof (cases "y = 0")
  case True
  then show ?thesis by (simp add: round64_def)
next
  case False
  from assms have y: "y = round_real x" and small: "\<bar>round_real x\<bar> < 2 ^ 1024"
    using False by (auto simp add: round64_def split: if_splits)
  have "round_real y = y"
    by (simp add: y round_real_idem)
  then show ?thesis
    using False small y by (simp add: round64_def)
qed

lemma round64_int:
  assumes "\<bar>m\<bar> < 2 ^ 53"
  shows "round64 (of_int m) = Fin (of_int m)"
proof (cases "m = 0")
  case True
  then show ?thesis by (simp add: round64_def)
next
  case False
  define y where "y = real_of_int m"
  have y0: "y \<noteq> 0" using False by (simp add: y_def)
  have lt: "\<bar>y\<bar> < 2 ^ 53"
    using assms unfolding y_def by (metis of_int_abs of_int_less_iff of_int_numeral of_int_power)
  then have "\<bar>y\<bar> < 2 powr of_int (52 + 1)"
    by (simp add: powr_realpow[symmetric] del: powr_numeral) 
  then have "\<lfloor>log 2 \<bar>y\<bar>\<rfloor> \<le> 52"
    by (intro floor_log_le[OF y0])
  then have "exponent64 y - 52 \<le> 0"
    by (simp add: exponent64_def)
  moreover have "y = of_int m * 2 powr of_int 0"
    by (simp add: y_def)
  ultimately have "round_real y = y"
    by (intro round_real_grid)
  moreover have "\<bar>y\<bar> < 2 ^ 1024"
  proof -
    have "(2::real) ^ 53 \<le> 2 ^ 1024" by (rule power_increasing) simp_all
    with lt show ?thesis by linarith
  qed
  ultimately show ?thesis
    using y0 by (simp add: round64_def y_def)
qed



lemma round64_zero [simp]: "round64 0 = Fin 0"
  by (simp add: round64_def)

lemma round64_one [simp]: "round64 1 = Fin 1"
  using round64_int[of 1] by simp

lemma round64_two [simp]: "round64 2 = Fin 2"
  using round64_int[of 2] by simp

section \<open>Arithmetic facts\<close>

lemma fmul_commute: "fmul x y = fmul y x"
  by (cases x; cases y) (simp_all add: mult.commute)

lemma fmul_zero_left: "fmul (Fin 0) y = Fin 0 \<or> fmul (Fin 0) y = NaN"
  by (cases y) simp_all

lemma fdiv_zero_or_nan:
  assumes "g = Fin 0 \<or> g = NaN" "n = Fin 0 \<or> n = NaN"
  shows "fdiv g n = NaN"
  using assms by auto

lemma within_tolerance_refl: "x \<noteq> NaN \<Longrightarrow> 0 \<le> tol \<Longrightarrow> within_tolerance tol x x"
  by (cases x) simp_all

lemma within_tolerance_nan [simp]: "\<not> within_tolerance tol NaN y"
  by simp

text \<open>Multiplying by \<open>1.0\<close> changes no value that an operation has returned.\<close>

lemma fmul_one_round64: "fmul (Fin 1) (round64 x) = round64 x"
proof (cases "round64 x")
  case (Fin y)
  then have "round64 y = Fin y"
    by (rule round64_idem)
  with Fin show ?thesis by simp
qed simp_all

lemma fmul_one_fsqrt: "fmul (Fin 1) (fsqrt y) = fsqrt y"
  by (cases y) (simp_all add: fmul_one_round64)

subsection \<open>Sums\<close>

lemma foldl_fadd_zero_or_nan:
  assumes "\<forall>t \<in> set ts. t = Fin 0 \<or> t = NaN" "acc = Fin 0 \<or> acc = NaN"
  shows "foldl fadd acc ts = Fin 0 \<or> foldl fadd acc ts = NaN"
  using assms
proof (induction ts arbitrary: acc)
  case Nil
  then show ?case by simp
next
  case (Cons t ts)
  have "fadd acc t = Fin 0 \<or> fadd acc t = NaN"
    using Cons.prems by auto
  with Cons show ?case by simp
qed

subsection \<open>Dot products and norms\<close>

lemma map_zip_same:
  "map (\<lambda>(x, y). h x y) (zip (map f xs) (map g xs)) = map (\<lambda>k. h (f k) (g k)) xs"
  by (induction xs) simp_all

lemma dot_column:
  "dot (column arr i) (column arr j) =
     np_sum (map (\<lambda>k. fmul (rows arr ! k ! i) (rows arr ! k ! j)) [0..<nrows arr])"
  unfolding dot_def column_def by (simp only: map_zip_same)

lemma dot_commute: "dot (column arr i) (column arr j) = dot (column arr j) (column arr i)"
  unfolding dot_column
  by (rule arg_cong[where f = np_sum], rule map_cong[OF refl], rule fmul_commute)

lemma calc_norm_eq: "calc_norm v = euclidean_norm v"
  unfolding calc_norm_def euclidean_norm_def dot_def np_square_def
  by (simp add: zip_same_conv_map comp_def)

lemma dot_zero_column:
  assumes "\<forall>x \<in> set (column arr k). x = Fin 0"
  shows "dot (column arr k) (column arr j) = Fin 0 \<or> dot (column arr k) (column arr j) = NaN"
proof -
  have z: "rows arr ! i ! k = Fin 0" if "i < nrows arr" for i
    using assms that by (simp add: column_def)
  have "\<forall>t \<in> set (map (\<lambda>i. fmul (rows arr ! i ! k) (rows arr ! i ! j)) [0..<nrows arr]).
          t = Fin 0 \<or> t = NaN"
    using z fmul_zero_left by auto
  then show ?thesis
    unfolding dot_column np_sum_def by (rule foldl_fadd_zero_or_nan) simp
qed

section \<open>The NumPy single-window function, entry by entry\<close>

lemma transpose2d_entry:
  "i < ncols arr \<Longrightarrow> k < nrows arr \<Longrightarrow> rows (transpose2d arr) ! i ! k = rows arr ! k ! i"
  by (simp add: transpose2d_def)

lemma transpose2d_shape:
  "nrows (transpose2d arr) = ncols arr" "ncols (transpose2d arr) = nrows arr"
  by (simp_all add: transpose2d_def)

lemma gram_entry:
  assumes "i < ncols arr" "j < ncols arr"
  shows "rows (matmul (transpose2d arr) arr) ! i ! j = dot (column arr i) (column arr j)"
proof -
  have "np_sum (map (\<lambda>k. fmul (rows (transpose2d arr) ! i ! k) (rows arr ! k ! j))
                    [0..<nrows arr])
      = np_sum (map (\<lambda>k. fmul (rows arr ! k ! i) (rows arr ! k ! j)) [0..<nrows arr])"
    by (rule arg_cong[where f = np_sum], rule map_cong[OF refl])
       (simp add: transpose2d_entry assms)
  then show ?thesis
    using assms by (simp add: matmul_def transpose2d_shape dot_column)
qed

lemma gram_shape:
  "nrows (matmul (transpose2d arr) arr) = ncols arr"
  "ncols (matmul (transpose2d arr) arr) = ncols arr"
  by (simp_all add: matmul_def transpose2d_def)

lemma length_norm: "length (linalg_norm_axis0 arr) = ncols arr"
  by (simp add: linalg_norm_axis0_def)

lemma norm_entry:
  "j < ncols arr \<Longrightarrow> linalg_norm_axis0 arr ! j = euclidean_norm (column arr j)"
  unfolding linalg_norm_axis0_def euclidean_norm_def dot_def
  by (simp add: zip_same_conv_map comp_def)

text \<open>Matrix B of the notebook: every row is the norm vector.\<close>

lemma tile_norm_shape:
  "nrows (tile (expand_dims0 v) (ncols (expand_dims0 v), 1)) = length v"
  "ncols (tile (expand_dims0 v) (ncols (expand_dims0 v), 1)) = length v"
  by (simp_all add: tile_def expand_dims0_def)

lemma tile_norm_entry:
  "i < length v \<Longrightarrow> j < length v \<Longrightarrow>
     rows (tile (expand_dims0 v) (ncols (expand_dims0 v), 1)) ! i ! j = v ! j"
  by (simp add: tile_def expand_dims0_def)

lemma elementwise_same_shape:
  assumes "nrows a = n" "nrows b = n" "ncols a = m" "ncols b = m"
  shows "nrows (elementwise f a b) = n" "ncols (elementwise f a b) = m"
  using assms by (simp_all add: elementwise_def broadcast_dim_def)

lemma elementwise_same_entry:
  assumes "nrows a = n" "nrows b = n" "ncols a = m" "ncols b = m" "i < n" "j < m"
  shows "rows (elementwise f a b) ! i ! j = f (rows a ! i ! j) (rows b ! i ! j)"
  using assms by (auto simp add: elementwise_def broadcast_dim_def)

lemma similarity_shape:
  "nrows (calc_cosine_similarity_on_2darray arr) = ncols arr"
  "ncols (calc_cosine_similarity_on_2darray arr) = ncols arr"
  "length (rows (calc_cosine_similarity_on_2darray arr)) = ncols arr"
proof -
  define v where "v = linalg_norm_axis0 arr"
  define B where "B = tile (expand_dims0 v) (ncols (expand_dims0 v), 1)"
  define N where "N = elementwise fmul B (transpose2d B)"
  define G where "G = matmul (transpose2d arr) arr"
  have v: "length v = ncols arr"
    by (simp add: v_def length_norm)
  have B: "nrows B = ncols arr" "ncols B = ncols arr"
    by (simp_all only: B_def tile_norm_shape v)
  have N: "nrows N = ncols arr" "ncols N = ncols arr"
    unfolding N_def by (rule elementwise_same_shape; simp add: B transpose2d_shape)+
  have M: "calc_cosine_similarity_on_2darray arr = elementwise fdiv G N"
    by (simp add: calc_cosine_similarity_on_2darray_def Let_def G_def N_def B_def v_def)
  have G: "nrows G = ncols arr" "ncols G = ncols arr"
    by (simp_all add: G_def gram_shape)
  show "nrows (calc_cosine_similarity_on_2darray arr) = ncols arr"
    unfolding M by (rule elementwise_same_shape(1)[OF G(1) N(1) G(2) N(2)])
  show "ncols (calc_cosine_similarity_on_2darray arr) = ncols arr"
    unfolding M by (rule elementwise_same_shape(2)[OF G(1) N(1) G(2) N(2)])
  show "length (rows (calc_cosine_similarity_on_2darray arr)) = ncols arr"
    unfolding M using G N by (simp add: elementwise_def broadcast_dim_def)
qed

lemma similarity_entry:
  assumes "i < ncols arr" "j < ncols arr"
  shows "rows (calc_cosine_similarity_on_2darray arr) ! i ! j =
           fdiv (dot (column arr i) (column arr j))
                (fmul (euclidean_norm (column arr i)) (euclidean_norm (column arr j)))"
proof -
  define v where "v = linalg_norm_axis0 arr"
  define B where "B = tile (expand_dims0 v) (ncols (expand_dims0 v), 1)"
  define N where "N = elementwise fmul B (transpose2d B)"
  define G where "G = matmul (transpose2d arr) arr"
  have v: "length v = ncols arr"
    by (simp add: v_def length_norm)
  have B: "nrows B = ncols arr" "ncols B = ncols arr"
    by (simp_all only: B_def tile_norm_shape v)
  have N: "nrows N = ncols arr" "ncols N = ncols arr"
    unfolding N_def by (rule elementwise_same_shape; simp add: B transpose2d_shape)+
  have Brow: "rows B ! a ! b = euclidean_norm (column arr b)"
    if "a < ncols arr" "b < ncols arr" for a b
  proof -
    have "rows B ! a ! b = v ! b"
      unfolding B_def by (rule tile_norm_entry) (simp_all add: v that)
    then show ?thesis
      using that by (simp add: v_def norm_entry)
  qed
  have "rows N ! i ! j = fmul (rows B ! i ! j) (rows (transpose2d B) ! i ! j)"
    unfolding N_def
    by (rule elementwise_same_entry[where n = "ncols arr" and m = "ncols arr"])
       (simp_all add: B transpose2d_shape assms)
  then have Nij: "rows N ! i ! j =
      fmul (euclidean_norm (column arr j)) (euclidean_norm (column arr i))"
    using assms by (simp add: Brow transpose2d_entry B)
  have "rows (elementwise fdiv G N) ! i ! j = fdiv (rows G ! i ! j) (rows N ! i ! j)"
    by (rule elementwise_same_entry[where n = "ncols arr" and m = "ncols arr"])
       (simp_all add: N G_def gram_shape assms)
  moreover have "calc_cosine_similarity_on_2darray arr = elementwise fdiv G N"
    by (simp add: calc_cosine_similarity_on_2darray_def Let_def G_def N_def B_def v_def)
  ultimately show ?thesis
    using assms
    by (simp add: G_def gram_entry Nij fmul_commute[of "euclidean_norm (column arr j)"])
qed

lemma similarity_symmetric:
  assumes "i < ncols arr" "j < ncols arr"
  shows "rows (calc_cosine_similarity_on_2darray arr) ! i ! j =
         rows (calc_cosine_similarity_on_2darray arr) ! j ! i"
  by (simp only: similarity_entry[OF assms] similarity_entry[OF assms(2) assms(1)]
      dot_commute[of arr i j] fmul_commute[of "euclidean_norm (column arr i)"])

text \<open>A channel of zeros: not-a-number in its whole row of the matrix.\<close>

lemma similarity_nan:
  assumes "k < ncols arr" "j < ncols arr" "\<forall>x \<in> set (column arr k). x = Fin 0"
  shows "rows (calc_cosine_similarity_on_2darray arr) ! k ! j = NaN"
proof -
  have "dot (column arr k) (column arr k) = Fin 0 \<or> dot (column arr k) (column arr k) = NaN"
    by (rule dot_zero_column[OF assms(3)])
  then have "euclidean_norm (column arr k) = Fin 0 \<or> euclidean_norm (column arr k) = NaN"
    by (auto simp add: euclidean_norm_def)
  then have "fmul (euclidean_norm (column arr k)) (euclidean_norm (column arr j)) = Fin 0 \<or>
             fmul (euclidean_norm (column arr k)) (euclidean_norm (column arr j)) = NaN"
    using fmul_zero_left[of "euclidean_norm (column arr j)"] by auto
  then have "fdiv (dot (column arr k) (column arr j))
               (fmul (euclidean_norm (column arr k)) (euclidean_norm (column arr j))) = NaN"
    by (rule fdiv_zero_or_nan[OF dot_zero_column[OF assms(3)]])
  then show ?thesis
    by (simp only: similarity_entry[OF assms(1,2)])
qed


section \<open>The Numba variant computes the same matrix\<close>

lemma norm_loop_prefix:
  assumes "n \<le> c"
  shows "norm_loop arr [0..<n] (zeros 1 c) =
           \<lparr>nrows = 1, ncols = c,
            rows = [map (\<lambda>i. calc_norm (column arr i)) [0..<n] @ replicate (c - n) (Fin 0)]\<rparr>"
  using assms
proof (induction n)
  case 0
  then show ?case by (simp add: norm_loop_def zeros_def)
next
  case (Suc n)
  then have IH: "norm_loop arr [0..<n] (zeros 1 c) =
           \<lparr>nrows = 1, ncols = c,
            rows = [map (\<lambda>i. calc_norm (column arr i)) [0..<n] @ replicate (c - n) (Fin 0)]\<rparr>"
    by simp
  have split: "replicate (c - n) (Fin (0::real)) = Fin 0 # replicate (c - Suc n) (Fin 0)"
    using Suc.prems by (simp add: Suc_diff_Suc flip: replicate_Suc)
  have "norm_loop arr [0..<Suc n] (zeros 1 c) =
          setitem (norm_loop arr [0..<n] (zeros 1 c)) 0 n (calc_norm (column arr n))"
    by (simp add: norm_loop_def)
  also have "\<dots> = \<lparr>nrows = 1, ncols = c,
            rows = [map (\<lambda>i. calc_norm (column arr i)) [0..<Suc n] @
                    replicate (c - Suc n) (Fin 0)]\<rparr>"
    by (simp only: IH) (simp add: setitem_def split list_update_append)
  finally show ?case .
qed

lemma norm_loop_full:
  "norm_loop arr [0..<ncols arr] (zeros 1 (ncols arr)) =
     \<lparr>nrows = 1, ncols = ncols arr, rows = [map (\<lambda>i. calc_norm (column arr i)) [0..<ncols arr]]\<rparr>"
  using norm_loop_prefix[of "ncols arr" "ncols arr" arr] by simp

lemma norm_vector_eq:
  "map (\<lambda>i. calc_norm (column arr i)) [0..<ncols arr] = linalg_norm_axis0 arr"
  by (simp add: linalg_norm_axis0_def calc_norm_def np_square_def)

text \<open>Multiplying the matrix of ones by the norm row gives the tiled matrix B.\<close>

lemma ones_times_row:
  assumes "\<forall>x \<in> set v. fmul (Fin 1) x = x"
  shows "elementwise fmul (ones (length v) (length v))
           \<lparr>nrows = 1, ncols = length v, rows = [v]\<rparr> =
         tile (expand_dims0 v) (ncols (expand_dims0 v), 1)"
proof -
  have one: "fmul (Fin 1) (v ! j) = v ! j" if "j < length v" for j
    using assms that by simp
  have "map (\<lambda>i. map (\<lambda>j. fmul (rows (ones (length v) (length v))
                                  ! (if length v = 1 then 0 else i)
                                  ! (if length v = 1 then 0 else j))
                            ([v] ! 0 ! (if length v = 1 then 0 else j)))
                   [0..<length v]) [0..<length v]
      = map (\<lambda>i. map (\<lambda>j. [v] ! (i mod 1) ! (j mod length v)) [0..<length v]) [0..<length v]"
    by (intro map_cong refl) (auto simp add: ones_def one)
  then show ?thesis
    by (simp add: elementwise_def tile_def expand_dims0_def broadcast_dim_def ones_def)
qed

lemma numba_eq_numpy:
  "calc_cosine_similarity_on_2darray_numba arr = calc_cosine_similarity_on_2darray arr"
proof -
  have len: "length (linalg_norm_axis0 arr) = ncols arr"
    by (rule length_norm)
  have one: "\<forall>x \<in> set (linalg_norm_axis0 arr). fmul (Fin 1) x = x"
    by (auto simp add: linalg_norm_axis0_def fmul_one_fsqrt)
  have "elementwise fmul (ones (ncols arr) (ncols arr))
          (norm_loop arr [0..<ncols arr] (zeros 1 (ncols arr))) =
        tile (expand_dims0 (linalg_norm_axis0 arr))
          (ncols (expand_dims0 (linalg_norm_axis0 arr)), 1)"
    using ones_times_row[OF one]
    by (simp only: norm_loop_full norm_vector_eq len)
  then show ?thesis
    by (simp only: calc_cosine_similarity_on_2darray_numba_def
        calc_cosine_similarity_on_2darray_def Let_def)
qed

section \<open>Windows of the rolling functions\<close>

lemma collect_map_Inr: "collect (map (\<lambda>x. Inr (f x)) xs) = Inr (map f xs)"
  by (induction xs) simp_all

lemma collect_returns:
  assumes "\<forall>x \<in> set xs. \<exists>m. g x = Inr m"
  shows "\<exists>ms. collect (map g xs) = Inr ms \<and> length ms = length xs"
  using assms
proof (induction xs)
  case Nil
  then show ?case by simp
next
  case (Cons x xs)
  then obtain ms where "collect (map g xs) = Inr ms" "length ms = length xs"
    by auto
  moreover obtain m where "g x = Inr m"
    using Cons.prems by auto
  ultimately show ?case by simp
qed

text \<open>
  The regular case: at least two windows of at least two rows over at least two
  columns, all columns in the window. The squeeze then removes the column-offset axis
  only, and the view is indexed by window, row and column.
\<close>

lemma view_regular:
  assumes "2 \<le> w" "w < int (nrows arr)" "2 \<le> ncols arr" "f = int (ncols arr)"
  shows "\<exists>v. sliding_window_view arr (w, f) = Inr v \<and>
           shape (squeeze v) = [nrows arr - nat w + 1, nat w, ncols arr] \<and>
           (\<forall>s i j. item (squeeze v) [s, i, j] = rows arr ! (s + i) ! j)"
  using assms
  by (auto simp add: sliding_window_view_def squeeze_def nat_diff_distrib)

lemma iterate_3d:
  assumes "shape a = [n, r, c]"
  shows "iterate a = Inr (map (subarray a) [0..<n])"
  using assms by (simp add: iterate_def)

lemma as2d_window:
  assumes "shape a = [n, r, ncols arr]"
    and "\<forall>s i j. item a [s, i, j] = rows arr ! (s + i) ! j"
  shows "as2d (subarray a k) = window arr k r"
  using assms by (simp add: as2d_def window_def subarray_def)

lemma orchestration_3d:
  assumes "shape a = [n, r, c]"
  shows "rolling_cosine_similarity_numba a =
           Inr (map (\<lambda>s. calc_cosine_similarity_on_2darray_numba (as2d (subarray a s))) [0..<n])"
  using assms by (simp add: rolling_cosine_similarity_numba_def iterate_3d[OF assms] comp_def)

lemma rolling_numba_regular:
  assumes "2 \<le> w" "w < int (nrows arr)" "2 \<le> ncols arr" "f = int (ncols arr)"
  shows "calc_rolling_cosine_similarity_numba arr w f =
           Inr (map (\<lambda>s. calc_cosine_similarity_on_2darray_numba (window arr s (nat w)))
                    [0..<nrows arr - nat w + 1])"
proof -
  obtain v where v: "sliding_window_view arr (w, f) = Inr v"
    and sh: "shape (squeeze v) = [nrows arr - nat w + 1, nat w, ncols arr]"
    and it: "\<forall>s i j. item (squeeze v) [s, i, j] = rows arr ! (s + i) ! j"
    using view_regular[OF assms] by blast
  show ?thesis
    by (simp add: calc_rolling_cosine_similarity_numba_def v orchestration_3d[OF sh]
        as2d_window[OF sh it] del: upt_Suc)
qed

text \<open>In the regular case the matrix at position \<open>s\<close> is computed from window \<open>s\<close> alone.\<close>

lemma rolling_numba_nth:
  assumes "2 \<le> w" "w < int (nrows arr)" "2 \<le> ncols arr" "f = int (ncols arr)"
    and "s < nrows arr - nat w + 1"
  shows "\<exists>ms. calc_rolling_cosine_similarity_numba arr w f = Inr ms \<and>
           length ms = nrows arr - nat w + 1 \<and>
           ms ! s = calc_cosine_similarity_on_2darray_numba (window arr s (nat w))"
  using assms(5) by (simp add: rolling_numba_regular[OF assms(1-4)] del: upt_Suc)

lemma rolling_v2_regular:
  assumes "2 \<le> w" "w < int (nrows g)" "2 \<le> ncols g" "f = int (ncols g)"
  shows "calc_rolling_cosine_similarity_v2 (Some g) a w f =
           Inr (map (\<lambda>s. calc_cosine_similarity_on_2darray (window g s (nat w)))
                    [0..<nrows g - nat w + 1])"
proof -
  obtain v where v: "sliding_window_view g (w, f) = Inr v"
    and sh: "shape (squeeze v) = [nrows g - nat w + 1, nat w, ncols g]"
    and it: "\<forall>s i j. item (squeeze v) [s, i, j] = rows g ! (s + i) ! j"
    using view_regular[OF assms] by blast
  have el: "calc_cosine_similarity_on_element (subarray (squeeze v) s) =
              Inr (calc_cosine_similarity_on_2darray (window g s (nat w)))" for s
    by (simp add: calc_cosine_similarity_on_element_def as2d_window[OF sh it])
       (simp add: subarray_def sh)
  show ?thesis
    by (simp add: calc_rolling_cosine_similarity_v2_def v iterate_3d[OF sh] comp_def el
        collect_map_Inr del: upt_Suc)
qed

lemma windowed_regular:
  assumes "2 \<le> w" "w < int (nrows g)" "2 \<le> ncols g" "f = int (ncols g)"
  shows "\<exists>v. windowed g w f = Inr (map (subarray (squeeze v)) [0..<nrows g - nat w + 1]) \<and>
           shape (squeeze v) = [nrows g - nat w + 1, nat w, ncols g]"
proof -
  obtain v where v: "sliding_window_view g (w, f) = Inr v"
    and sh: "shape (squeeze v) = [nrows g - nat w + 1, nat w, ncols g]"
    using view_regular[OF assms] by blast
  have "windowed g w f = Inr (map (subarray (squeeze v)) [0..<nrows g - nat w + 1])"
    by (simp add: windowed_def v iterate_3d[OF sh] del: upt_Suc)
  with sh show ?thesis
    by blast
qed

lemma rolling_v1_regular:
  assumes "2 \<le> w" "w < int (nrows g)" "2 \<le> ncols g" "f = int (ncols g)"
    and "returns_on_windows cosine_similarity g w f"
  shows "\<exists>ms. calc_rolling_cosine_similarity_v1 cosine_similarity (Some g) a w f = Inr ms \<and>
           length ms = nrows g - nat w + 1"
proof -
  obtain v where w: "windowed g w f = Inr (map (subarray (squeeze v)) [0..<nrows g - nat w + 1])"
    using windowed_regular[OF assms(1-4)] by blast
  then have "\<forall>x \<in> set (map (subarray (squeeze v)) [0..<nrows g - nat w + 1]).
               \<exists>m. cosine_similarity (transpose_nd x) = Inr m"
    using assms(5) by (simp add: returns_on_windows_def)
  from collect_returns[OF this]
  obtain ms where "collect (map (\<lambda>x. cosine_similarity (transpose_nd x))
                     (map (subarray (squeeze v)) [0..<nrows g - nat w + 1])) = Inr ms"
    "length ms = nrows g - nat w + 1"
    by auto
  moreover have "calc_rolling_cosine_similarity_v1 cosine_similarity (Some g) a w f =
      (case windowed g w f of
         Inl e \<Rightarrow> Inl e
       | Inr ws \<Rightarrow> collect (map (\<lambda>x. cosine_similarity (transpose_nd x)) ws))"
    by (simp add: calc_rolling_cosine_similarity_v1_def windowed_def split: sum.splits)
  ultimately show ?thesis
    by (simp add: w)
qed

lemma window_too_long:
  assumes "int (nrows arr) < w"
  shows "sliding_window_view arr (w, f) = Inl ValueError"
  using assms by (simp add: sliding_window_view_def)

lemma window_negative:
  assumes "w < 0"
  shows "sliding_window_view arr (w, f) = Inl ValueError"
  using assms by (simp add: sliding_window_view_def)

text \<open>
  A window as long as the series: the view has shape \<open>(1, 1, T, C)\<close>, the squeeze leaves
  at most two axes, and the jitted rolling step is never typed, whatever the series holds.
\<close>

lemma squeeze_drops_single_window:
  assumes "window_size = int (nrows arr)" "num_features = int (ncols arr)"
  shows "calc_rolling_cosine_similarity_numba arr window_size num_features = Inl TypingError"
proof -
  have "length (filter (\<lambda>d. d \<noteq> 1) [nrows arr, ncols arr]) \<noteq> 3"
    using length_filter_le[of "\<lambda>d. d \<noteq> 1" "[nrows arr, ncols arr]"] by simp
  then show ?thesis
    using assms
    by (simp add: calc_rolling_cosine_similarity_numba_def sliding_window_view_def squeeze_def
        rolling_cosine_similarity_numba_def)
qed

text \<open>A window of no rows is accepted: one matrix for each of the \<open>T + 1\<close> start positions.\<close>

lemma zero_window_regular:
  assumes "1 \<le> nrows arr" "2 \<le> ncols arr" "num_features = int (ncols arr)"
  shows "\<exists>ms. calc_rolling_cosine_similarity_numba arr 0 num_features = Inr ms \<and>
           length ms = nrows arr + 1"
  using assms
  by (simp add: calc_rolling_cosine_similarity_numba_def sliding_window_view_def squeeze_def
        rolling_cosine_similarity_numba_def iterate_def nat_add_distrib del: upt_Suc)

section \<open>The claims about one window\<close>

text \<open>
  Claim C1. For a window of \<open>C\<close> columns and channel indices \<open>i\<close>, \<open>j\<close> below \<open>C\<close>,
  \<open>calc_cosine_similarity_on_2darray\<close> returns a \<open>C\<close> by \<open>C\<close> matrix whose entry \<open>(i, j)\<close>
  is the dot product of columns \<open>i\<close> and \<open>j\<close> divided by the product of their Euclidean
  norms: the Gram matrix divided element-wise by the outer product of the norm vector.
  The equation holds as an equation of \<open>float64\<close> values for every window, so also where a
  norm is zero and the quotient is not a number.
\<close>

theorem gram_over_norms:
  assumes "i < ncols arr" "j < ncols arr"
  shows "nrows (calc_cosine_similarity_on_2darray arr) = ncols arr \<and>
         ncols (calc_cosine_similarity_on_2darray arr) = ncols arr \<and>
         rows (calc_cosine_similarity_on_2darray arr) ! i ! j =
           fdiv (dot (column arr i) (column arr j))
                (fmul (euclidean_norm (column arr i)) (euclidean_norm (column arr j)))"
  using assms by (simp add: similarity_shape similarity_entry)

text \<open>
  On the first window of the worked scenario the channels are \<open>[1, 0, 1]\<close> and \<open>[0, 1, 1]\<close>:
  their dot product is 1, each sum of squares is 2, and the entry between them is 1
  divided by the rounded product of the two rounded square roots of 2, one half up to
  rounding.
\<close>

theorem gram_over_norms_witness:
  "nrows (calc_cosine_similarity_on_2darray scenario_window) = 2 \<and>
   ncols (calc_cosine_similarity_on_2darray scenario_window) = 2 \<and>
   rows (calc_cosine_similarity_on_2darray scenario_window) ! 0 ! 1 =
     fdiv (Fin 1) (fmul (fsqrt (Fin 2)) (fsqrt (Fin 2)))"
proof -
  have c: "(0::nat) < ncols scenario_window" "1 < ncols scenario_window"
    by (simp_all add: scenario_window_def)
  have cols: "column scenario_window 0 = [Fin 1, Fin 0, Fin 1]"
    "column scenario_window (Suc 0) = [Fin 0, Fin 1, Fin 1]"
    by (simp_all add: column_def scenario_window_def eval_nat_numeral)
  show ?thesis
    using gram_over_norms[OF c]
    by (simp add: cols dot_def euclidean_norm_def np_sum_def) (simp add: scenario_window_def)
qed




text \<open>
  Claim C7, in the form the code satisfies. The entries \<open>(i, j)\<close> and \<open>(j, i)\<close> of every
  similarity matrix are the same \<open>float64\<close> value, in the NumPy formulation and in the Numba
  variant. When that value is not not-a-number the two entries are equal numbers and so
  agree within every tolerance.
\<close>

theorem similarity_matrix_symmetric:
  assumes "i < ncols arr" "j < ncols arr" "0 \<le> tol"
  shows "rows (calc_cosine_similarity_on_2darray arr) ! i ! j =
           rows (calc_cosine_similarity_on_2darray arr) ! j ! i \<and>
         rows (calc_cosine_similarity_on_2darray_numba arr) ! i ! j =
           rows (calc_cosine_similarity_on_2darray_numba arr) ! j ! i \<and>
         (rows (calc_cosine_similarity_on_2darray arr) ! i ! j \<noteq> NaN \<longrightarrow>
            within_tolerance tol
              (rows (calc_cosine_similarity_on_2darray arr) ! i ! j)
              (rows (calc_cosine_similarity_on_2darray arr) ! j ! i)) \<and>
         (rows (calc_cosine_similarity_on_2darray_numba arr) ! i ! j \<noteq> NaN \<longrightarrow>
            within_tolerance tol
              (rows (calc_cosine_similarity_on_2darray_numba arr) ! i ! j)
              (rows (calc_cosine_similarity_on_2darray_numba arr) ! j ! i))"
  using similarity_symmetric[OF assms(1,2)] assms(3)
  by (simp add: numba_eq_numpy within_tolerance_refl)

theorem similarity_matrix_symmetric_witness:
  "rows (calc_cosine_similarity_on_2darray two_by_two) ! 0 ! 1 =
     rows (calc_cosine_similarity_on_2darray two_by_two) ! 1 ! 0 \<and>
   rows (calc_cosine_similarity_on_2darray_numba two_by_two) ! 0 ! 1 =
     rows (calc_cosine_similarity_on_2darray_numba two_by_two) ! 1 ! 0 \<and>
   within_tolerance (1 / 10 ^ 8)
     (rows (calc_cosine_similarity_on_2darray two_by_two) ! 0 ! 1)
     (rows (calc_cosine_similarity_on_2darray two_by_two) ! 1 ! 0) \<and>
   within_tolerance (1 / 10 ^ 8)
     (rows (calc_cosine_similarity_on_2darray_numba two_by_two) ! 0 ! 1)
     (rows (calc_cosine_similarity_on_2darray_numba two_by_two) ! 1 ! 0)"
proof -
  have c: "(0::nat) < ncols two_by_two" "1 < ncols two_by_two"
    by (simp_all add: two_by_two_def)
  have cols: "column two_by_two 0 = [Fin 1, Fin 0]" "column two_by_two (Suc 0) = [Fin 0, Fin 1]"
    by (simp_all add: column_def two_by_two_def eval_nat_numeral)
  have e: "rows (calc_cosine_similarity_on_2darray two_by_two) ! 0 ! 1 = Fin 0"
    using similarity_entry[OF c] by (simp add: cols dot_def euclidean_norm_def np_sum_def)
  have t: "(0::real) \<le> 1 / 10 ^ 8"
    by simp
  show ?thesis
    using similarity_matrix_symmetric[OF c t] e by (simp add: numba_eq_numpy)
qed

text \<open>
  As stated, up to tolerance for every window, the symmetry fails where a channel is
  degenerate: in the window \<open>[[0, 1], [0, 2]]\<close> the entries \<open>(0, 1)\<close> and \<open>(1, 0)\<close> are both
  not-a-number, and not-a-number is within no tolerance of not-a-number.
\<close>

theorem symmetry_tolerance_counterexample:
  "rows (calc_cosine_similarity_on_2darray zero_channel_series) ! 0 ! 1 = NaN \<and>
   rows (calc_cosine_similarity_on_2darray zero_channel_series) ! 1 ! 0 = NaN \<and>
   \<not> within_tolerance (1 / 10 ^ 8)
       (rows (calc_cosine_similarity_on_2darray zero_channel_series) ! 0 ! 1)
       (rows (calc_cosine_similarity_on_2darray zero_channel_series) ! 1 ! 0)"
proof -
  have col: "column zero_channel_series 0 = [Fin 0, Fin 0]"
    by (simp add: column_def zero_channel_series_def eval_nat_numeral)
  have c: "(0::nat) < ncols zero_channel_series" "1 < ncols zero_channel_series"
    by (simp_all add: zero_channel_series_def)
  have z: "\<forall>x \<in> set (column zero_channel_series 0). x = Fin 0"
    by (simp add: col)
  have nan: "rows (calc_cosine_similarity_on_2darray zero_channel_series) ! 0 ! 1 = NaN"
    by (rule similarity_nan[OF c z])
  then have "rows (calc_cosine_similarity_on_2darray zero_channel_series) ! 1 ! 0 = NaN"
    by (simp only: similarity_symmetric[OF c(2) c(1)])
  with nan show ?thesis
    by simp
qed




section \<open>The claims about the rolling functions\<close>

text \<open>
  Claim C3, in the form the code satisfies. With all columns in the window
  (\<open>num_features = C\<close>), at least two columns and \<open>2 \<le> window_size < T\<close>,
  \<open>calc_rolling_cosine_similarity_numba\<close> returns
  \<open>T - window_size + 1 = max(0, T - window_size + 1)\<close> matrices. So does
  \<open>calc_rolling_cosine_similarity_v2\<close>, and \<open>calc_rolling_cosine_similarity_v1\<close> when
  scikit-learn's function returns on the transpose of each window of the call, where \<open>T\<close>
  and \<open>C\<close> are the shape of the module-level \<open>array_2D\<close> that these two window, whatever
  their argument \<open>array\<close> is.
\<close>

theorem rolling_count:
  assumes "2 \<le> window_size" "window_size < int (nrows arr)" "2 \<le> ncols arr"
    and "num_features = int (ncols arr)"
  shows "(\<exists>ms. calc_rolling_cosine_similarity_numba arr window_size num_features = Inr ms \<and>
              int (length ms) = max 0 (int (nrows arr) - window_size + 1)) \<and>
         (\<exists>ms. calc_rolling_cosine_similarity_v2 (Some arr) array window_size num_features
                 = Inr ms \<and>
              int (length ms) = max 0 (int (nrows arr) - window_size + 1)) \<and>
         (returns_on_windows cosine_similarity arr window_size num_features \<longrightarrow>
          (\<exists>ms. calc_rolling_cosine_similarity_v1 cosine_similarity (Some arr) array
                 window_size num_features = Inr ms \<and>
              int (length ms) = max 0 (int (nrows arr) - window_size + 1)))"
proof -
  have n: "int (nrows arr - nat window_size + 1) = max 0 (int (nrows arr) - window_size + 1)"
    using assms(1,2) by simp
  have "\<exists>ms. calc_rolling_cosine_similarity_numba arr window_size num_features = Inr ms \<and>
              length ms = nrows arr - nat window_size + 1"
    by (simp add: rolling_numba_regular[OF assms] del: upt_Suc)
  moreover
  have "\<exists>ms. calc_rolling_cosine_similarity_v2 (Some arr) array window_size num_features
                = Inr ms \<and> length ms = nrows arr - nat window_size + 1"
    by (simp add: rolling_v2_regular[OF assms] del: upt_Suc)
  moreover
  have "\<exists>ms. calc_rolling_cosine_similarity_v1 cosine_similarity (Some arr) array
                window_size num_features = Inr ms \<and>
              length ms = nrows arr - nat window_size + 1"
    if "returns_on_windows cosine_similarity arr window_size num_features"
    by (rule rolling_v1_regular[OF assms that])
  ultimately show ?thesis
    by (metis n)
qed

text \<open>
  The worked scenario: six rows, windows of three, four matrices. The stand-in for
  scikit-learn's function raises on everything but a 2-D array of shape \<open>(2, 3)\<close>, the
  transpose of a window.
\<close>

theorem rolling_count_witness:
  "(\<exists>ms. calc_rolling_cosine_similarity_numba scenario_matrix 3 2 = Inr ms \<and>
        int (length ms) = 4) \<and>
   (\<exists>ms. calc_rolling_cosine_similarity_v2 (Some scenario_matrix) two_by_two 3 2 = Inr ms \<and>
        int (length ms) = 4) \<and>
   (\<exists>ms. calc_rolling_cosine_similarity_v1
           (\<lambda>x. if shape x = [2, 3] then Inr (shape x) else Inl ValueError)
           (Some scenario_matrix) two_by_two 3 2 = Inr ms \<and>
        int (length ms) = 4)"
proof -
  let ?cs = "\<lambda>x :: float64 ndarray. if shape x = [2, 3] then Inr (shape x) else Inl ValueError"
  have h: "(2::int) \<le> 3" "3 < int (nrows scenario_matrix)" "2 \<le> ncols scenario_matrix"
    "2 = int (ncols scenario_matrix)"
    by (simp_all add: scenario_matrix_def)
  obtain v where w: "windowed scenario_matrix 3 2 =
      Inr (map (subarray (squeeze v)) [0..<nrows scenario_matrix - nat 3 + 1])"
    and sh: "shape (squeeze v) = [nrows scenario_matrix - nat 3 + 1, nat 3, ncols scenario_matrix]"
    using windowed_regular[OF h] by blast
  have "shape (transpose_nd (subarray (squeeze v) k)) = [2, 3]" for k
    by (simp add: transpose_nd_def subarray_def sh scenario_matrix_def)
  then have r: "returns_on_windows ?cs scenario_matrix 3 2"
    by (auto simp add: returns_on_windows_def w)
  show ?thesis
    using rolling_count[OF h, of two_by_two ?cs] r
    by (simp add: scenario_matrix_def)
qed

text \<open>
  The count fails as stated: over two rows, a window of three has
  \<open>max(0, T - window_size + 1) = 0\<close>, and the call raises instead of returning no matrix.
\<close>

theorem rolling_count_counterexample:
  "max 0 (int (nrows two_by_two) - 3 + 1) = 0 \<and>
   calc_rolling_cosine_similarity_numba two_by_two 3 2 \<noteq> Inr [] \<and>
   calc_rolling_cosine_similarity_numba two_by_two 3 2 = Inl ValueError"
  by (simp add: calc_rolling_cosine_similarity_numba_def sliding_window_view_def two_by_two_def)

text \<open>
  Claim C4, in the form the code satisfies. For a window longer than the series the rolling functions raise
  \<open>ValueError\<close>: NumPy's \<open>sliding_window_view\<close> rejects the window shape, and no sequence,
  empty or not, is returned.
\<close>

theorem window_longer_than_series_raises:
  assumes "int (nrows arr) < window_size"
  shows "calc_rolling_cosine_similarity_numba arr window_size num_features = Inl ValueError \<and>
         calc_rolling_cosine_similarity_v2 (Some arr) array window_size num_features
           = Inl ValueError \<and>
         calc_rolling_cosine_similarity_v1 cosine_similarity (Some arr) array window_size
           num_features = Inl ValueError"
  by (simp add: calc_rolling_cosine_similarity_numba_def calc_rolling_cosine_similarity_v2_def
      calc_rolling_cosine_similarity_v1_def window_too_long[OF assms])

theorem window_longer_than_series_raises_witness:
  "calc_rolling_cosine_similarity_numba scenario_matrix 7 2 = Inl ValueError \<and>
   calc_rolling_cosine_similarity_v2 (Some scenario_matrix) two_by_two 7 2 = Inl ValueError \<and>
   calc_rolling_cosine_similarity_v1 (\<lambda>x. Inr (shape x)) (Some scenario_matrix) two_by_two 7 2
     = Inl ValueError"
proof -
  have h: "int (nrows scenario_matrix) < 7"
    by (simp add: scenario_matrix_def)
  show ?thesis
    by (rule window_longer_than_series_raises[OF h])
qed

text \<open>Over a series of one row, a window of two is not answered by the empty sequence.\<close>

theorem empty_result_counterexample:
  "calc_rolling_cosine_similarity_numba single_row 2 2 \<noteq> Inr [] \<and>
   calc_rolling_cosine_similarity_numba single_row 2 2 = Inl ValueError"
  by (simp add: calc_rolling_cosine_similarity_numba_def sliding_window_view_def single_row_def)

text \<open>
  Claim C5. With \<open>window_size = T\<close> the claim expects one matrix, over the whole series.
  On the two-by-two series with \<open>window_size = 2\<close> the windowed view has shape
  \<open>(1, 1, 2, 2)\<close>; \<open>np.squeeze\<close> removes the window axis together with the column-offset
  axis, the rolling step receives a 2-D array, and the call fails: Numba cannot type
  \<open>rolling_cosine_similarity_numba\<close> for it, and the NumPy function of version 2 is
  handed the rows one by one. The notebook describes the output as one matrix per window,
  \<open>len - window_size + 1\<close> of them.
\<close>

theorem whole_series_window_fails:
  "calc_rolling_cosine_similarity_numba two_by_two 2 2 = Inl TypingError \<and>
   calc_rolling_cosine_similarity_v2 (Some two_by_two) two_by_two 2 2 = Inl IndexError"
  by (simp add: calc_rolling_cosine_similarity_numba_def calc_rolling_cosine_similarity_v2_def
      sliding_window_view_def squeeze_def rolling_cosine_similarity_numba_def iterate_def
      subarray_def calc_cosine_similarity_on_element_def two_by_two_def eval_nat_numeral)

text \<open>
  Claim C6. A channel that is zero within a window gives not-a-number in its row and
  column of that window's matrix, and the claim expects the rolling operation to return
  a matrix for every valid window start all the same. The two-by-two series whose first
  channel is zero has one valid window of two rows, the series itself. The single-window
  function does give not-a-number there, but the rolling operation returns no matrix:
  \<open>np.squeeze\<close> has removed the window axis, as for every window as long as the series.
\<close>

theorem degenerate_whole_series_fails:
  "column zero_channel_series 0 = [Fin 0, Fin 0] \<and>
   rows (calc_cosine_similarity_on_2darray zero_channel_series) ! 0 ! 1 = NaN \<and>
   rows (calc_cosine_similarity_on_2darray zero_channel_series) ! 1 ! 0 = NaN \<and>
   calc_rolling_cosine_similarity_numba zero_channel_series 2 2 = Inl TypingError \<and>
   calc_rolling_cosine_similarity_v2 (Some zero_channel_series) zero_channel_series 2 2
     = Inl IndexError"
proof -
  have col: "column zero_channel_series 0 = [Fin 0, Fin 0]"
    by (simp add: column_def zero_channel_series_def eval_nat_numeral)
  have c: "(0::nat) < ncols zero_channel_series" "1 < ncols zero_channel_series"
    by (simp_all add: zero_channel_series_def)
  have z: "\<forall>x \<in> set (column zero_channel_series 0). x = Fin 0"
    by (simp add: col)
  have nan: "rows (calc_cosine_similarity_on_2darray zero_channel_series) ! 0 ! 1 = NaN"
    by (rule similarity_nan[OF c z])
  then have nan': "rows (calc_cosine_similarity_on_2darray zero_channel_series) ! 1 ! 0 = NaN"
    by (simp only: similarity_symmetric[OF c(2) c(1)])
  have "calc_rolling_cosine_similarity_numba zero_channel_series 2 2 = Inl TypingError"
    by (rule squeeze_drops_single_window) (simp_all add: zero_channel_series_def)
  moreover
  have "calc_rolling_cosine_similarity_v2 (Some zero_channel_series) zero_channel_series 2 2
          = Inl IndexError"
    by (simp add: calc_rolling_cosine_similarity_v2_def sliding_window_view_def squeeze_def
        iterate_def subarray_def calc_cosine_similarity_on_element_def zero_channel_series_def
        eval_nat_numeral)
  ultimately show ?thesis
    using col nan nan' by simp
qed

text \<open>
  Claim C9, in the form the code satisfies. For a negative \<open>window_size\<close> the rolling functions raise
  \<open>ValueError\<close> in the windowing step, before any similarity matrix is computed. A
  \<open>window_size\<close> of zero is not rejected.
\<close>

theorem negative_window_size_raises:
  assumes "window_size < 0"
  shows "calc_rolling_cosine_similarity_numba arr window_size num_features = Inl ValueError \<and>
         calc_rolling_cosine_similarity_v2 (Some arr) array window_size num_features
           = Inl ValueError \<and>
         calc_rolling_cosine_similarity_v1 cosine_similarity (Some arr) array window_size
           num_features = Inl ValueError"
  by (simp add: calc_rolling_cosine_similarity_numba_def calc_rolling_cosine_similarity_v2_def
      calc_rolling_cosine_similarity_v1_def window_negative[OF assms])

theorem negative_window_size_raises_witness:
  "calc_rolling_cosine_similarity_numba two_by_two (- 1) 2 = Inl ValueError \<and>
   calc_rolling_cosine_similarity_v2 (Some two_by_two) single_row (- 1) 2 = Inl ValueError \<and>
   calc_rolling_cosine_similarity_v1 (\<lambda>x. Inr (shape x)) (Some two_by_two) single_row (- 1) 2
     = Inl ValueError"
proof -
  have h: "(- 1 :: int) < 0"
    by simp
  show ?thesis
    by (rule negative_window_size_raises[OF h])
qed

text \<open>
  With \<open>window_size = 0\<close> over the two-by-two series nothing is raised: the Numba
  function and version 2 return three matrices, each computed over an empty window and
  not-a-number throughout.
\<close>

theorem zero_window_size_counterexample:
  "calc_rolling_cosine_similarity_numba two_by_two 0 2 =
     Inr (replicate 3 \<lparr>nrows = 2, ncols = 2, rows = [[NaN, NaN], [NaN, NaN]]\<rparr>) \<and>
   calc_rolling_cosine_similarity_v2 (Some two_by_two) two_by_two 0 2 =
     Inr (replicate 3 \<lparr>nrows = 2, ncols = 2, rows = [[NaN, NaN], [NaN, NaN]]\<rparr>)"
  by (simp add: calc_rolling_cosine_similarity_numba_def calc_rolling_cosine_similarity_v2_def
      sliding_window_view_def squeeze_def rolling_cosine_similarity_numba_def iterate_def
      subarray_def as2d_def numba_eq_numpy calc_cosine_similarity_on_element_def
      calc_cosine_similarity_on_2darray_def Let_def matmul_def transpose2d_def
      linalg_norm_axis0_def column_def expand_dims0_def tile_def elementwise_def
      broadcast_dim_def np_sum_def two_by_two_def eval_nat_numeral)

text \<open>
  Claim C10. \<open>calc_rolling_cosine_similarity_v1\<close> and \<open>calc_rolling_cosine_similarity_v2\<close>
  never read their parameter \<open>array\<close>: for the same module-level \<open>array_2D\<close>, window size and
  number of features, two calls with different arrays return the same result.
\<close>

theorem array_argument_ignored:
  "calc_rolling_cosine_similarity_v1 cosine_similarity array_2D a1 window_size num_features =
     calc_rolling_cosine_similarity_v1 cosine_similarity array_2D a2 window_size num_features \<and>
   calc_rolling_cosine_similarity_v2 array_2D a1 window_size num_features =
     calc_rolling_cosine_similarity_v2 array_2D a2 window_size num_features"
  by (simp add: calc_rolling_cosine_similarity_v1_def calc_rolling_cosine_similarity_v2_def)

end
